theory Spec2Isabelle
  imports Main
begin

section \<open>Values crossing the JavaScript / Java boundary\<close>

text \<open>
  Byte counts come from \<^verbatim>\<open>UploadInfo.getTotalBytes()\<close> and
  \<^verbatim>\<open>getUploadedBytes()\<close>, Java longs that arrive as JavaScript numbers.
  Such a number is integer valued or one of the three non-finite values.
\<close>

datatype jsnum = JInt int | JNaN | JPosInf | JNegInf

text \<open>\<^verbatim>\<open>!!n\<close> for a number: zero and NaN are falsy.\<close>

fun truthy_num :: "jsnum \<Rightarrow> bool" where
  "truthy_num (JInt i) = (i \<noteq> 0)"
| "truthy_num JNaN = False"
| "truthy_num JPosInf = True"
| "truthy_num JNegInf = True"

fun isFinite :: "jsnum \<Rightarrow> bool" where
  "isFinite (JInt i) = True"
| "isFinite JNaN = False"
| "isFinite JPosInf = False"
| "isFinite JNegInf = False"

text \<open>\<^verbatim>\<open>a <= b\<close> on numbers: every comparison with NaN is false.\<close>

fun num_le :: "jsnum \<Rightarrow> jsnum \<Rightarrow> bool" where
  "num_le JNaN b = False"
| "num_le a JNaN = False"
| "num_le JNegInf b = True"
| "num_le a JPosInf = True"
| "num_le JPosInf b = False"
| "num_le a JNegInf = False"
| "num_le (JInt i) (JInt j) = (i \<le> j)"

text \<open>\<^verbatim>\<open>!!s\<close> for an optional string: undefined and the empty string are falsy.\<close>

fun truthy_str :: "string option \<Rightarrow> bool" where
  "truthy_str None = False"
| "truthy_str (Some s) = (s \<noteq> [])"

datatype js_value = VUndefined | VNum jsnum | VStr string

fun opt_str_value :: "string option \<Rightarrow> js_value" where
  "opt_str_value None = VUndefined"
| "opt_str_value (Some s) = VStr s"

datatype js_error = TypeError | Error string

datatype 'a outcome = Returned 'a | Threw js_error

section \<open>What the transport engine hands to the callbacks\<close>

record upload_info =
  getUploadId :: string
  getTotalBytes :: jsnum
  getUploadedBytes :: jsnum

text \<open>
  A \<^verbatim>\<open>ServerResponse\<close>. \<open>getCode\<close> is \<open>None\<close> for an object on which
  \<^verbatim>\<open>typeof response.getCode === 'function'\<close> is false.
\<close>

record server_response =
  getCode :: "int option"
  getBodyString :: string

datatype throwable =
    UserCancelledUploadException
  | UploadError server_response
  | OtherThrowable string

text \<open>\<^verbatim>\<open>new java.lang.Exception(error)\<close>: an exception whose cause is \<open>error\<close>.\<close>

datatype java_exception = Exception throwable

section \<open>Events\<close>

record error_detail =
  ed_error :: java_exception
  ed_responseCode :: int
  ed_response :: server_response

text \<open>
  One constructor for each shape of object passed to \<^verbatim>\<open>notify\<close>. The
  \<^verbatim>\<open>object\<close> field of an event is the task that emits it, so the events are
  kept in the log of that task.
\<close>

datatype event =
    PropertyChange string js_value
  | ProgressEv jsnum jsnum
  | CancelledEv
  | ErrorEv "error_detail option"
  | RespondedEv string int
  | CompleteEv int "server_response option"

fun eventName :: "event \<Rightarrow> string" where
  "eventName (PropertyChange p v) = ''propertyChange''"
| "eventName (ProgressEv c t) = ''progress''"
| "eventName CancelledEv = ''cancelled''"
| "eventName (ErrorEv d) = ''error''"
| "eventName (RespondedEv d c) = ''responded''"
| "eventName (CompleteEv c r) = ''complete''"

text \<open>The semantic events are all but the property-change notifications.\<close>

fun semantic :: "event \<Rightarrow> bool" where
  "semantic (PropertyChange p v) = False"
| "semantic (ProgressEv c t) = True"
| "semantic CancelledEv = True"
| "semantic (ErrorEv d) = True"
| "semantic (RespondedEv d c) = True"
| "semantic (CompleteEv c r) = True"

section \<open>Session and Task\<close>

datatype session = Session (session_id: string)

text \<open>
  A Task object with the events it has emitted, oldest first
  (\<^verbatim>\<open>Observable.notify\<close>).
\<close>

record task =
  t_session :: session
  t_id :: string
  t_upload :: jsnum
  t_totalUpload :: jsnum
  t_status :: string
  t_description :: "string option"
  emitted :: "event list"

definition notify :: "event \<Rightarrow> task \<Rightarrow> task" where
  "notify e t = t\<lparr>emitted := emitted t @ [e]\<rparr>"

definition notifyPropertyChanged :: "string \<Rightarrow> js_value \<Rightarrow> task \<Rightarrow> task" where
  "notifyPropertyChanged propertyName v t = notify (PropertyChange propertyName v) t"

definition setTotalUpload :: "jsnum \<Rightarrow> task \<Rightarrow> task" where
  "setTotalUpload v t = notifyPropertyChanged ''totalUpload'' (VNum v) (t\<lparr>t_totalUpload := v\<rparr>)"

definition setUpload :: "jsnum \<Rightarrow> task \<Rightarrow> task" where
  "setUpload v t = notifyPropertyChanged ''upload'' (VNum v) (t\<lparr>t_upload := v\<rparr>)"

definition setStatus :: "string \<Rightarrow> task \<Rightarrow> task" where
  "setStatus v t = notifyPropertyChanged ''status'' (VStr v) (t\<lparr>t_status := v\<rparr>)"

definition setDescription :: "string option \<Rightarrow> task \<Rightarrow> task" where
  "setDescription v t =
     notifyPropertyChanged ''description'' (opt_str_value v) (t\<lparr>t_description := v\<rparr>)"

section \<open>The process: registry, counter and the calls made to the engine\<close>

text \<open>
  A request as built for the transport engine. The builder of the engine is taken to
  store what it is given.
\<close>

datatype protocol = Binary | Multipart

record request =
  r_url :: string
  r_protocol :: protocol
  r_fileToUpload :: "string option"
  r_parameters :: "(string \<times> string) list"
  r_files :: "(string \<times> string \<times> string \<times> string option) list"
  r_autoDelete :: bool
  r_maxRetries :: "jsnum option"
  r_headers :: "(string \<times> string) list"
  r_method :: "string option"

text \<open>
  The calls that reach the engine and the writes to \<^verbatim>\<open>Task.cache\<close>, in the
  order in which they happen.
\<close>

datatype action =
    StartUpload request
  | CacheInsert string
  | StopUpload string

record world =
  taskCount :: nat
  cache :: "string \<rightharpoonup> task"
  progressReceiver :: bool
  receiver :: bool
  hasNamespace :: bool
  currentAppPath :: string
  trace :: "action list"

definition fromId :: "string \<Rightarrow> world \<Rightarrow> task option" where
  "fromId ident w = cache w ident"

text \<open>Writing back the object that \<^verbatim>\<open>Task.cache[uploadId]\<close> refers to.\<close>

definition store :: "string \<Rightarrow> task \<Rightarrow> world \<Rightarrow> world" where
  "store ident t w = w\<lparr>cache := (cache w)(ident \<mapsto> t)\<rparr>"

section \<open>The callbacks of the progress receiver\<close>

text \<open>
  Each callback looks the task up and calls a method on the result. When the id is
  not in the cache the result is \<^verbatim>\<open>undefined\<close> and the first method call
  throws a TypeError.
\<close>

definition onProgressReceiverProgress :: "upload_info \<Rightarrow> world \<Rightarrow> unit outcome \<times> world" where
  "onProgressReceiverProgress uploadInfo w =
    (let uploadId = getUploadId uploadInfo in
     case fromId uploadId w of
       None \<Rightarrow> (Threw TypeError, w)
     | Some task \<Rightarrow>
        (let totalBytes = getTotalBytes uploadInfo;
             currentBytes = getUploadedBytes uploadInfo;
             t1 = setTotalUpload totalBytes task;
             t2 = setUpload currentBytes t1;
             t3 = setStatus ''uploading'' t2;
             t4 = notify (ProgressEv currentBytes totalBytes) t3
         in (Returned (), store uploadId t4 w)))"

definition onProgressReceiverCancelled :: "upload_info \<Rightarrow> world \<Rightarrow> unit outcome \<times> world" where
  "onProgressReceiverCancelled uploadInfo w =
    (let uploadId = getUploadId uploadInfo in
     case fromId uploadId w of
       None \<Rightarrow> (Threw TypeError, w)
     | Some task \<Rightarrow>
        (let t1 = setStatus ''cancelled'' task;
             t2 = notify CancelledEv t1
         in (Returned (), store uploadId t2 w)))"

definition onProgressReceiverError ::
    "upload_info \<Rightarrow> throwable \<Rightarrow> world \<Rightarrow> unit outcome \<times> world" where
  "onProgressReceiverError uploadInfo err w =
    (let uploadId = getUploadId uploadInfo in
     case fromId uploadId w of
       None \<Rightarrow> (Threw TypeError, w)
     | Some task \<Rightarrow>
        (let t1 = setStatus ''error'' task;
             t2 = (case err of
                     UserCancelledUploadException \<Rightarrow> notify CancelledEv t1
                   | UploadError resp \<Rightarrow>
                       notify (ErrorEv (Some \<lparr>ed_error = Exception err,
                                               ed_responseCode = - 1,
                                               ed_response = resp\<rparr>)) t1
                   | OtherThrowable d \<Rightarrow> notify (ErrorEv None) t1)
         in (Returned (), store uploadId t2 w)))"

text \<open>
  \<^verbatim>\<open>response && typeof response.getCode === 'function' ? response.getCode() : -1\<close>
\<close>

fun responseCodeOf :: "server_response option \<Rightarrow> int" where
  "responseCodeOf None = - 1"
| "responseCodeOf (Some r) = (case getCode r of None \<Rightarrow> - 1 | Some c \<Rightarrow> c)"

definition normalizeTotal :: "jsnum \<Rightarrow> jsnum" where
  "normalizeTotal totalUpload =
     (if \<not> truthy_num totalUpload \<or> \<not> isFinite totalUpload \<or> num_le totalUpload (JInt 0)
      then JInt 1 else totalUpload)"

text \<open>
  The response is \<open>None\<close> for \<^verbatim>\<open>null\<close>: then
  \<^verbatim>\<open>response.getBodyString()\<close> throws while the second event is being
  built, after the first one has been delivered.
\<close>

definition onProgressReceiverCompleted ::
    "upload_info \<Rightarrow> server_response option \<Rightarrow> world \<Rightarrow> unit outcome \<times> world" where
  "onProgressReceiverCompleted uploadInfo response w =
    (let uploadId = getUploadId uploadInfo in
     case fromId uploadId w of
       None \<Rightarrow> (Threw TypeError, w)
     | Some task \<Rightarrow>
        (let totalUpload = normalizeTotal (getTotalBytes uploadInfo);
             t1 = setUpload totalUpload task;
             t2 = setTotalUpload totalUpload t1;
             t3 = setStatus ''complete'' t2;
             t4 = notify (ProgressEv totalUpload totalUpload) t3
         in case response of
              None \<Rightarrow> (Threw TypeError, store uploadId t4 w)
            | Some r \<Rightarrow>
               (let t5 = notify (RespondedEv (getBodyString r) (responseCodeOf response)) t4;
                    t6 = notify (CompleteEv (responseCodeOf response) response) t5
                in (Returned (), store uploadId t6 w))))"

section \<open>Building requests\<close>

record request_options =
  o_url :: string
  o_method :: "string option"
  o_headers :: "(string \<times> string option) list option"
  o_description :: "string option"
  o_androidAutoDeleteAfterUpload :: "bool option"
  o_androidMaxRetries :: "jsnum option"

text \<open>
  An element of the \<^verbatim>\<open>params\<close> array. A field is \<open>None\<close> when the
  property is undefined.
\<close>

record part =
  p_name :: "string option"
  p_value :: "string option"
  p_filename :: "string option"
  p_destFilename :: "string option"
  p_mimeType :: "string option"

definition new_request :: "protocol \<Rightarrow> string \<Rightarrow> request" where
  "new_request k url =
     \<lparr>r_url = url, r_protocol = k, r_fileToUpload = None, r_parameters = [], r_files = [],
      r_autoDelete = False, r_maxRetries = None, r_headers = [], r_method = None\<rparr>"

definition addHeader :: "string \<Rightarrow> string \<Rightarrow> request \<Rightarrow> request" where
  "addHeader h v request = request\<lparr>r_headers := r_headers request @ [(h, v)]\<rparr>"

definition addParameter :: "string \<Rightarrow> string \<Rightarrow> request \<Rightarrow> request" where
  "addParameter n v request = request\<lparr>r_parameters := r_parameters request @ [(n, v)]\<rparr>"

definition addFileToUpload ::
    "string \<Rightarrow> string \<Rightarrow> string \<Rightarrow> string option \<Rightarrow> request \<Rightarrow> request" where
  "addFileToUpload fileName n destFileName mimeType request =
     request\<lparr>r_files := r_files request @ [(fileName, n, destFileName, mimeType)]\<rparr>"

text \<open>The loop over \<^verbatim>\<open>headers\<close>: null and undefined values are skipped.\<close>

fun addHeaders :: "(string \<times> string option) list \<Rightarrow> request \<Rightarrow> request" where
  "addHeaders [] request = request"
| "addHeaders ((header, None) # rest) request = addHeaders rest request"
| "addHeaders ((header, Some v) # rest) request = addHeaders rest (addHeader header v request)"

definition setRequestOptions :: "request_options \<Rightarrow> request \<Rightarrow> request" where
  "setRequestOptions options request =
    (let autoDeleteAfterUpload =
           (case o_androidAutoDeleteAfterUpload options of None \<Rightarrow> False | Some b \<Rightarrow> b);
         r1 = (if autoDeleteAfterUpload then request\<lparr>r_autoDelete := True\<rparr> else request);
         maxRetryCount = o_androidMaxRetries options;
         r2 = (case maxRetryCount of
                 None \<Rightarrow> r1
               | Some n \<Rightarrow> if truthy_num n then r1\<lparr>r_maxRetries := Some n\<rparr> else r1);
         r3 = (case o_headers options of None \<Rightarrow> r2 | Some headers \<Rightarrow> addHeaders headers r2)
     in r3\<lparr>r_method := Some (if truthy_str (o_method options)
                              then the (o_method options) else ''GET'')\<rparr>)"

definition getBinaryRequest :: "string \<Rightarrow> request_options \<Rightarrow> string \<Rightarrow> request" where
  "getBinaryRequest taskId options file =
     setRequestOptions options ((new_request Binary (o_url options))\<lparr>r_fileToUpload := Some file\<rparr>)"

text \<open>
  \<^verbatim>\<open>fileName.substring(fileName.lastIndexOf('/') + 1, fileName.length)\<close>
\<close>

definition basename :: "string \<Rightarrow> string" where
  "basename fileName = rev (takeWhile (\<lambda>c. c \<noteq> CHR ''/'') (rev fileName))"

definition startsWith :: "string \<Rightarrow> string \<Rightarrow> bool" where
  "startsWith s p = (take (length p) s = p)"

text \<open>
  The replacement string of \<^verbatim>\<open>String.prototype.replace\<close> with a string
  pattern, expanded for a match \<open>matched\<close> that has \<open>front\<close> in front of it and
  \<open>back\<close> behind it: two dollar signs give one, a dollar sign with an ampersand gives
  the match, with a backquote the text in front, with an apostrophe the text behind.
  There are no capture groups, so every other dollar sign stands for itself.
\<close>

fun getSubstitution :: "string \<Rightarrow> string \<Rightarrow> string \<Rightarrow> string \<Rightarrow> string" where
  "getSubstitution matched front back [] = []"
| "getSubstitution matched front back [c] = [c]"
| "getSubstitution matched front back (c # d # ds) =
    (if c = CHR ''$'' \<and> d = CHR ''$'' then CHR ''$'' # getSubstitution matched front back ds
     else if c = CHR ''$'' \<and> d = CHR ''&'' then matched @ getSubstitution matched front back ds
     else if c = CHR ''$'' \<and> d = CHR 0x60 then front @ getSubstitution matched front back ds
     else if c = CHR ''$'' \<and> d = CHR 0x27 then back @ getSubstitution matched front back ds
     else c # getSubstitution matched front back (d # ds))"

text \<open>
  \<^verbatim>\<open>s.replace(searchValue, replaceValue)\<close> for a string \<open>s\<close> that starts with
  \<open>searchValue\<close>: the first occurrence is the one at the start, and only that one is
  replaced.
\<close>

definition replace_leading :: "string \<Rightarrow> string \<Rightarrow> string \<Rightarrow> string" where
  "replace_leading s searchValue replaceValue =
     getSubstitution searchValue [] (drop (length searchValue) s) replaceValue
       @ drop (length searchValue) s"

text \<open>
  The loop of \<^verbatim>\<open>getMultipartRequest\<close>. A plain field whose value is undefined
  throws a TypeError at \<^verbatim>\<open>curParam.value.toString()\<close>.
\<close>

fun addParts :: "string \<Rightarrow> part list \<Rightarrow> request \<Rightarrow> js_error + request" where
  "addParts appPath [] request = Inr request"
| "addParts appPath (curParam # rest) request =
    (case p_name curParam of
       None \<Rightarrow> Inl (Error ''You must have a `name` value'')
     | Some n \<Rightarrow>
        (case p_filename curParam of
           None \<Rightarrow>
            (case p_value curParam of
               None \<Rightarrow> Inl TypeError
             | Some v \<Rightarrow> addParts appPath rest (addParameter n v request))
         | Some filename \<Rightarrow>
            (let fileName = (if startsWith filename ''~/''
                             then replace_leading filename ''~/'' (appPath @ ''/'')
                             else filename);
                 destFileName = (if truthy_str (p_destFilename curParam)
                                 then the (p_destFilename curParam) else basename fileName)
             in addParts appPath rest
                  (addFileToUpload fileName n destFileName (p_mimeType curParam) request))))"

definition getMultipartRequest ::
    "string \<Rightarrow> string \<Rightarrow> request_options \<Rightarrow> part list \<Rightarrow> js_error + request" where
  "getMultipartRequest appPath taskId options params =
     (case addParts appPath params (new_request Multipart (o_url options)) of
        Inl e \<Rightarrow> Inl e
      | Inr request \<Rightarrow> Inr (setRequestOptions options request))"

section \<open>Creating and cancelling tasks\<close>

definition initializeProgressReceiver :: "world \<Rightarrow> world" where
  "initializeProgressReceiver w = (if progressReceiver w then w else w\<lparr>progressReceiver := True\<rparr>)"

definition ensureReceiver :: "world \<Rightarrow> world" where
  "ensureReceiver w =
     (if \<not> receiver w then (initializeProgressReceiver w)\<lparr>receiver := True\<rparr> else w)"

definition ensureUploadServiceNamespace :: "world \<Rightarrow> world" where
  "ensureUploadServiceNamespace w = (if \<not> hasNamespace w then w\<lparr>hasNamespace := True\<rparr> else w)"

text \<open>Decimal digits of the counter, as string concatenation produces them.\<close>

function string_of_nat :: "nat \<Rightarrow> string" where
  "string_of_nat n =
     (if n < 10 then [''0123456789'' ! n]
      else string_of_nat (n div 10) @ [''0123456789'' ! (n mod 10)])"
  by pat_completeness auto
termination
  by (relation "measure (\<lambda>n. n)") auto

declare string_of_nat.simps [simp del]

text \<open>
  A fresh Task: \<^verbatim>\<open>_session\<close> and \<^verbatim>\<open>_id\<close> are assigned at once; the other
  fields are undefined until \<^verbatim>\<open>initTask\<close> calls their setters, which do not read
  them.
\<close>

definition new_Task :: "string \<Rightarrow> session \<Rightarrow> task" where
  "new_Task taskId s =
     \<lparr>t_session = s, t_id = taskId, t_upload = JNaN, t_totalUpload = JNaN, t_status = [],
      t_description = None, emitted = []\<rparr>"

definition initTask :: "string \<Rightarrow> session \<Rightarrow> request_options \<Rightarrow> task" where
  "initTask taskId s options =
     setStatus ''pending''
       (setTotalUpload (JInt 1)
         (setUpload (JInt 0)
           (setDescription (o_description options) (new_Task taskId s))))"

definition startUpload :: "request \<Rightarrow> world \<Rightarrow> world" where
  "startUpload request w = w\<lparr>trace := trace w @ [StartUpload request]\<rparr>"

definition cacheInsert :: "task \<Rightarrow> world \<Rightarrow> world" where
  "cacheInsert t w =
     w\<lparr>cache := (cache w)(t_id t \<mapsto> t), trace := trace w @ [CacheInsert (t_id t)]\<rparr>"

definition nextTaskId :: "session \<Rightarrow> world \<Rightarrow> string" where
  "nextTaskId s w = session_id s @ ''{'' @ string_of_nat (taskCount w) @ ''}''"

definition create :: "session \<Rightarrow> string \<Rightarrow> request_options \<Rightarrow> world \<Rightarrow> task outcome \<times> world" where
  "create s file options w0 =
    (let w1 = ensureUploadServiceNamespace w0;
         w2 = ensureReceiver w1;
         w3 = w2\<lparr>taskCount := taskCount w2 + 1\<rparr>;
         taskId = nextTaskId s w3;
         request = getBinaryRequest taskId options file;
         task = initTask taskId s options;
         w4 = startUpload request w3;
         w5 = cacheInsert task w4
     in (Returned task, w5))"

definition createMultiPart ::
    "session \<Rightarrow> part list \<Rightarrow> request_options \<Rightarrow> world \<Rightarrow> task outcome \<times> world" where
  "createMultiPart s params options w0 =
    (let w1 = ensureUploadServiceNamespace w0;
         w2 = ensureReceiver w1;
         w3 = w2\<lparr>taskCount := taskCount w2 + 1\<rparr>;
         taskId = nextTaskId s w3
     in case getMultipartRequest (currentAppPath w3) taskId options params of
          Inl e \<Rightarrow> (Threw e, w3)
        | Inr request \<Rightarrow>
           (let task = initTask taskId s options;
                w4 = startUpload request w3;
                w5 = cacheInsert task w4
            in (Returned task, w5)))"

definition uploadFile :: "session \<Rightarrow> string \<Rightarrow> request_options \<Rightarrow> world \<Rightarrow> task outcome \<times> world" where
  "uploadFile s fileUri options w = create s fileUri options w"


definition cancel :: "task \<Rightarrow> world \<Rightarrow> world" where
  "cancel t w = w\<lparr>trace := trace w @ [StopUpload (t_id t)]\<rparr>"

text \<open>The process before any upload has been created.\<close>

definition fresh :: "string \<Rightarrow> world" where
  "fresh appPath =
     \<lparr>taskCount = 0, cache = Map.empty, progressReceiver = False, receiver = False,
      hasNamespace = False, currentAppPath = appPath, trace = []\<rparr>"

section \<open>Reading the trace\<close>

text \<open>The requests handed to the engine, oldest first.\<close>

fun submitted :: "action list \<Rightarrow> request list" where
  "submitted [] = []"
| "submitted (StartUpload r # as) = r # submitted as"
| "submitted (CacheInsert i # as) = submitted as"
| "submitted (StopUpload i # as) = submitted as"

fun isStartUpload :: "action \<Rightarrow> bool" where
  "isStartUpload (StartUpload r) = True"
| "isStartUpload (CacheInsert i) = False"
| "isStartUpload (StopUpload i) = False"

text \<open>
  The order the specification asks for: the task with this id is written to the cache
  before the first request is started.
\<close>

definition registered_before_submitted :: "string \<Rightarrow> action list \<Rightarrow> bool" where
  "registered_before_submitted tid acts =
     (CacheInsert tid \<in> set (takeWhile (\<lambda>a. \<not> isStartUpload a) acts))"




section \<open>Example inputs\<close>

definition example_options :: request_options where
  "example_options =
     \<lparr>o_url = ''https://example.org/upload'', o_method = Some ''POST'', o_headers = None,
      o_description = Some ''demo'', o_androidAutoDeleteAfterUpload = None,
      o_androidMaxRetries = None\<rparr>"

text \<open>Options that leave the method out.\<close>

definition default_method_options :: request_options where
  "default_method_options = example_options\<lparr>o_method := None\<rparr>"

definition example_info :: upload_info where
  "example_info = \<lparr>getUploadId = ''s1{1}'', getTotalBytes = JInt 200, getUploadedBytes = JInt 50\<rparr>"

definition zero_total_info :: upload_info where
  "zero_total_info = \<lparr>getUploadId = ''s1{1}'', getTotalBytes = JInt 0, getUploadedBytes = JInt 0\<rparr>"

definition example_response :: server_response where
  "example_response = \<lparr>getCode = Some 500, getBodyString = ''Internal Server Error''\<rparr>"

definition pending_task :: task where
  "pending_task =
     \<lparr>t_session = Session ''s1'', t_id = ''s1{1}'', t_upload = JInt 0,
      t_totalUpload = JInt 1, t_status = ''pending'', t_description = Some ''demo'',
      emitted = [PropertyChange ''description'' (VStr ''demo''),
                 PropertyChange ''upload'' (VNum (JInt 0)),
                 PropertyChange ''totalUpload'' (VNum (JInt 1)),
                 PropertyChange ''status'' (VStr ''pending'')]\<rparr>"

text \<open>The process after one upload from session \<open>s1\<close>.\<close>

definition after_upload :: world where
  "after_upload =
     snd (uploadFile (Session ''s1'') ''/tmp/a.bin'' example_options (fresh ''/app''))"

definition example_field :: part where
  "example_field =
     \<lparr>p_name = Some ''title'', p_value = Some ''holiday'', p_filename = None,
      p_destFilename = None, p_mimeType = None\<rparr>"

definition example_file :: part where
  "example_file =
     \<lparr>p_name = Some ''photo'', p_value = None, p_filename = Some ''~/img/a.png'',
      p_destFilename = None, p_mimeType = Some ''image/png''\<rparr>"



section \<open>Evaluation lemmas\<close>

lemmas task_ops = notify_def notifyPropertyChanged_def setTotalUpload_def setUpload_def
  setStatus_def setDescription_def

lemmas ensure_ops = ensureReceiver_def ensureUploadServiceNamespace_def
  initializeProgressReceiver_def

lemmas create_ops = uploadFile_def create_def nextTaskId_def ensure_ops initTask_def
  new_Task_def startUpload_def cacheInsert_def

lemma string_of_nat_1: "string_of_nat (Suc 0) = ''1''"
  by (simp add: string_of_nat.simps)

lemma after_upload_cache: "cache after_upload = [''s1{1}'' \<mapsto> pending_task]"
  by (simp add: after_upload_def create_ops fresh_def Let_def task_ops string_of_nat_1
      example_options_def pending_task_def)

lemma after_upload_fromId: "fromId ''s1{1}'' after_upload = Some pending_task"
  by (simp add: fromId_def after_upload_cache)

lemma after_upload_trace:
  "trace after_upload =
     [StartUpload (getBinaryRequest ''s1{1}'' example_options ''/tmp/a.bin''),
      CacheInsert ''s1{1}'']"
  by (simp add: after_upload_def create_ops fresh_def Let_def string_of_nat_1 task_ops)

lemma normalizeTotal_cases:
  "normalizeTotal T = (if isFinite T \<and> \<not> num_le T (JInt 0) then T else JInt 1)"
  by (cases T) (auto simp add: normalizeTotal_def)

lemma normalizeTotal_ge_1: "num_le (JInt 1) (normalizeTotal T)"
  by (cases T) (auto simp add: normalizeTotal_def)

lemma submitted_append: "submitted (xs @ ys) = submitted xs @ submitted ys"
  by (induction xs rule: submitted.induct) simp_all

lemma setRequestOptions_method:
  "\<not> truthy_str (o_method options) \<Longrightarrow>
   r_method (setRequestOptions options request) = Some ''GET''"
  by (simp add: setRequestOptions_def Let_def)


section \<open>The error callback\<close>

text \<open>
  C1, evaluated on the code. The task \<open>s1{1}\<close> is registered and the error callback
  reports a user cancellation. The callback emits one \<open>cancelled\<close> event and no
  \<open>error\<close> event, but the status it leaves is \<open>error\<close>: \<^verbatim>\<open>setStatus("error")\<close>
  runs before the cause is looked at.
\<close>

theorem onError_userCancelled_leaves_status_error:
  "map_option t_status
     (fromId ''s1{1}''
        (snd (onProgressReceiverError example_info UserCancelledUploadException after_upload)))
     = Some ''error''
   \<and> map_option (\<lambda>t. filter semantic (emitted t))
     (fromId ''s1{1}''
        (snd (onProgressReceiverError example_info UserCancelledUploadException after_upload)))
     = Some [CancelledEv]"
  by (simp add: onProgressReceiverError_def fromId_def store_def example_info_def
      after_upload_cache Let_def task_ops pending_task_def)

text \<open>
  C3, evaluated on the code. The error callback reports an upload error whose server
  response has the HTTP code 500. The \<open>error\<close> event carries the wrapped error and the
  raw response, and its response code is \<open>-1\<close>, not 500.
\<close>

theorem onError_uploadError_responseCode_is_minus_one:
  "map_option (\<lambda>t. filter semantic (emitted t))
     (fromId ''s1{1}''
        (snd (onProgressReceiverError example_info (UploadError example_response) after_upload)))
     = Some [ErrorEv (Some \<lparr>ed_error = Exception (UploadError example_response),
                             ed_responseCode = - 1,
                             ed_response = example_response\<rparr>)]
   \<and> getCode example_response = Some 500"
  by (simp add: onProgressReceiverError_def fromId_def store_def example_info_def
      after_upload_cache Let_def task_ops example_response_def pending_task_def)

section \<open>Registration and submission\<close>

text \<open>
  C2 as stated fails: in the first upload of a process the request is started first and
  the task is written to the cache second.
\<close>

theorem create_registers_after_submit_counterexample:
  "trace after_upload =
     [StartUpload (getBinaryRequest ''s1{1}'' example_options ''/tmp/a.bin''),
      CacheInsert ''s1{1}'']
   \<and> \<not> registered_before_submitted ''s1{1}'' (trace after_upload)"
  by (simp add: after_upload_trace registered_before_submitted_def)

text \<open>
  C2 as amended. \<open>Task.create\<close> always returns a task; \<open>Task.createMultiPart\<close> returns one
  when the request could be built. In both, the call first starts the request and then,
  before it returns, writes the task to the cache under its id, so that on return the id
  resolves to the returned task.
\<close>

theorem create_submits_then_registers:
  "(\<exists>t w'. create s file options w = (Returned t, w')
        \<and> trace w' = trace w @ [StartUpload (getBinaryRequest (t_id t) options file),
                                   CacheInsert (t_id t)]
        \<and> fromId (t_id t) w' = Some t)
   \<and> (\<forall>t. fst (createMultiPart s params options w) = Returned t \<longrightarrow>
        (\<exists>request. trace (snd (createMultiPart s params options w))
                      = trace w @ [StartUpload request, CacheInsert (t_id t)])
        \<and> fromId (t_id t) (snd (createMultiPart s params options w)) = Some t)"
  by (auto simp add: create_def createMultiPart_def Let_def startUpload_def cacheInsert_def
      fromId_def ensure_ops initTask_def task_ops new_Task_def nextTaskId_def
      split: sum.splits)

lemma multipart_fresh_returns:
  "fst (createMultiPart (Session ''s1'') [example_field, example_file] example_options
          (fresh ''/app'')) = Returned pending_task"
  by (simp add: createMultiPart_def Let_def ensure_ops nextTaskId_def string_of_nat_1 fresh_def
      getMultipartRequest_def example_field_def example_file_def startsWith_def basename_def
      replace_leading_def
      addParameter_def addFileToUpload_def new_request_def example_options_def initTask_def
      task_ops new_Task_def pending_task_def)

lemma multipart_default_method_returns:
  "fst (createMultiPart (Session ''s1'') [example_field] default_method_options
          (fresh ''/app'')) = Returned pending_task"
  by (simp add: createMultiPart_def Let_def ensure_ops nextTaskId_def string_of_nat_1 fresh_def
      getMultipartRequest_def example_field_def addParameter_def new_request_def
      default_method_options_def example_options_def initTask_def task_ops new_Task_def
      pending_task_def)

text \<open>
  Witness for C2 as amended: the first single-file upload and the first multipart upload
  (one plain field, one file) of a process.
\<close>

theorem create_submits_then_registers_witness:
  "(\<exists>t w'. create (Session ''s1'') ''/tmp/a.bin'' example_options (fresh ''/app'') = (Returned t, w')
        \<and> trace w' = trace (fresh ''/app'')
             @ [StartUpload (getBinaryRequest (t_id t) example_options ''/tmp/a.bin''),
                CacheInsert (t_id t)]
        \<and> fromId (t_id t) w' = Some t)
   \<and> fst (createMultiPart (Session ''s1'') [example_field, example_file] example_options
             (fresh ''/app'')) = Returned pending_task
   \<and> (\<exists>request.
         trace (snd (createMultiPart (Session ''s1'') [example_field, example_file]
                       example_options (fresh ''/app'')))
           = trace (fresh ''/app'') @ [StartUpload request, CacheInsert (t_id pending_task)])
   \<and> fromId (t_id pending_task)
         (snd (createMultiPart (Session ''s1'') [example_field, example_file] example_options
                 (fresh ''/app''))) = Some pending_task"
  using multipart_fresh_returns
    create_submits_then_registers [of "Session ''s1''" "''/tmp/a.bin''" example_options
      "fresh ''/app''" "[example_field, example_file]"]
  by blast

section \<open>Callbacks for an id that is not registered\<close>

text \<open>
  C4 as stated fails: a progress callback for an id that no task is registered under
  does not return, it throws.
\<close>

theorem unroutable_callback_counterexample:
  "fst (onProgressReceiverProgress example_info (fresh ''/app'')) \<noteq> Returned ()"
  by (simp add: onProgressReceiverProgress_def fromId_def fresh_def Let_def)

text \<open>
  C4 as amended. When the upload id of a callback is not in the cache, each of the four
  callbacks throws a TypeError at its first use of the looked-up task, and leaves the
  cache, every task and every event log as they were.
\<close>

theorem unroutable_callback_throws:
  assumes "fromId (getUploadId uploadInfo) w = None"
  shows "onProgressReceiverProgress uploadInfo w = (Threw TypeError, w)
       \<and> onProgressReceiverCancelled uploadInfo w = (Threw TypeError, w)
       \<and> onProgressReceiverError uploadInfo err w = (Threw TypeError, w)
       \<and> onProgressReceiverCompleted uploadInfo response w = (Threw TypeError, w)"
  using assms
  by (simp add: onProgressReceiverProgress_def onProgressReceiverCancelled_def
      onProgressReceiverError_def onProgressReceiverCompleted_def Let_def)

text \<open>Witness for C4 as amended: the four callbacks in a process without tasks.\<close>

theorem unroutable_callback_throws_witness:
  "fromId (getUploadId example_info) (fresh ''/app'') = None
   \<and> onProgressReceiverProgress example_info (fresh ''/app'') = (Threw TypeError, fresh ''/app'')
   \<and> onProgressReceiverCancelled example_info (fresh ''/app'') = (Threw TypeError, fresh ''/app'')
   \<and> onProgressReceiverError example_info UserCancelledUploadException (fresh ''/app'')
        = (Threw TypeError, fresh ''/app'')
   \<and> onProgressReceiverCompleted example_info (Some example_response) (fresh ''/app'')
        = (Threw TypeError, fresh ''/app'')"
proof -
  have h: "fromId (getUploadId example_info) (fresh ''/app'') = None"
    by (simp add: fromId_def fresh_def)
  from unroutable_callback_throws [OF h, of UserCancelledUploadException "Some example_response"]
  show ?thesis using h by blast
qed

section \<open>The success callback\<close>

text \<open>
  C5. For a success callback on a registered task, whatever total the engine reports
  and whether or not a response object came with it: the total is the reported one when
  that is finite and positive and 1 otherwise; \<open>totalUpload\<close> and \<open>upload\<close> of the task
  are both set to it; the callback emits one \<open>progress\<close> event, whose current and total
  bytes are both that number; and the number is at least 1.
\<close>

theorem completed_normalizes_progress:
  assumes "fromId (getUploadId uploadInfo) w = Some t"
  shows "\<exists>t' n new.
           fromId (getUploadId uploadInfo)
             (snd (onProgressReceiverCompleted uploadInfo response w)) = Some t'
         \<and> n = (if isFinite (getTotalBytes uploadInfo)
                    \<and> \<not> num_le (getTotalBytes uploadInfo) (JInt 0)
                 then getTotalBytes uploadInfo else JInt 1)
         \<and> t_totalUpload t' = n \<and> t_upload t' = n
         \<and> emitted t' = emitted t @ new
         \<and> filter (\<lambda>e. eventName e = ''progress'') new = [ProgressEv n n]
         \<and> num_le (JInt 1) n"
proof (cases response)
  case None
  then show ?thesis
    using assms normalizeTotal_ge_1 [of "getTotalBytes uploadInfo"]
    by (simp add: onProgressReceiverCompleted_def Let_def store_def fromId_def task_ops
        normalizeTotal_cases)
next
  case (Some r)
  then show ?thesis
    using assms normalizeTotal_ge_1 [of "getTotalBytes uploadInfo"]
    by (simp add: onProgressReceiverCompleted_def Let_def store_def fromId_def task_ops
        normalizeTotal_cases)
qed

text \<open>
  Witness for C5: the engine reports a total of 0 for the registered task \<open>s1{1}\<close>; the
  progress event reads 1 of 1.
\<close>

theorem completed_normalizes_progress_witness:
  "fromId (getUploadId zero_total_info) after_upload = Some pending_task
   \<and> (\<exists>t' new.
         fromId (getUploadId zero_total_info)
           (snd (onProgressReceiverCompleted zero_total_info (Some example_response)
                   after_upload)) = Some t'
       \<and> t_totalUpload t' = JInt 1 \<and> t_upload t' = JInt 1
       \<and> emitted t' = emitted pending_task @ new
       \<and> filter (\<lambda>e. eventName e = ''progress'') new = [ProgressEv (JInt 1) (JInt 1)])"
proof -
  have h: "fromId (getUploadId zero_total_info) after_upload = Some pending_task"
    by (simp add: zero_total_info_def after_upload_fromId)
  have z: "getTotalBytes zero_total_info = JInt 0"
    by (simp add: zero_total_info_def)
  from completed_normalizes_progress [OF h, of "Some example_response"]
  show ?thesis using h by (simp add: z)
qed

text \<open>
  With a response object, the success callback on a registered task returns and emits
  exactly three semantic events, in this order: \<open>progress\<close> with the normalized count
  twice (the reported total when that is finite and positive, 1 otherwise), \<open>responded\<close>
  with the body string and the status code, \<open>complete\<close> with the status code and the
  response object. The status code is \<open>-1\<close> when the response has no \<open>getCode\<close>.
\<close>

lemma completed_with_response_emits_three_events:
  assumes "fromId (getUploadId uploadInfo) w = Some t"
  shows "fst (onProgressReceiverCompleted uploadInfo (Some r) w) = Returned ()
       \<and> (\<exists>t' n new.
             fromId (getUploadId uploadInfo)
               (snd (onProgressReceiverCompleted uploadInfo (Some r) w)) = Some t'
           \<and> n = (if isFinite (getTotalBytes uploadInfo)
                      \<and> \<not> num_le (getTotalBytes uploadInfo) (JInt 0)
                   then getTotalBytes uploadInfo else JInt 1)
           \<and> emitted t' = emitted t @ new
           \<and> filter semantic new =
               [ProgressEv n n,
                RespondedEv (getBodyString r) (case getCode r of None \<Rightarrow> - 1 | Some c \<Rightarrow> c),
                CompleteEv (case getCode r of None \<Rightarrow> - 1 | Some c \<Rightarrow> c) (Some r)])"
  using assms
  by (simp add: onProgressReceiverCompleted_def Let_def store_def fromId_def task_ops
      normalizeTotal_cases)

text \<open>
  C6, evaluated on the code. The success callback for the registered task \<open>s1{1}\<close>
  comes with a null response. The callback emits the \<open>progress\<close> event and then throws
  a TypeError at \<^verbatim>\<open>response.getBodyString()\<close>: there is no \<open>responded\<close> and no
  \<open>complete\<close> event, although the two lines that follow guard the same response with
  \<^verbatim>\<open>response &&\<close> and fall back to \<open>-1\<close>.
\<close>

theorem completed_null_response_throws_after_progress:
  "fst (onProgressReceiverCompleted example_info None after_upload) = Threw TypeError
   \<and> map_option (\<lambda>t. filter semantic (emitted t))
       (fromId ''s1{1}'' (snd (onProgressReceiverCompleted example_info None after_upload)))
     = Some [ProgressEv (JInt 200) (JInt 200)]"
  by (simp add: onProgressReceiverCompleted_def fromId_def store_def example_info_def
      after_upload_cache Let_def task_ops pending_task_def normalizeTotal_def)

section \<open>Multipart validation\<close>




section \<open>The first task of a process\<close>

text \<open>
  C8. In a process that has created no upload yet, \<open>uploadFile\<close> on the session \<open>s1\<close>
  returns a task with id \<open>s1{1}\<close>, status \<open>pending\<close>, 0 uploaded bytes and a total of
  1, and that task is what the id resolves to afterwards.
\<close>

theorem first_upload_initial_task:
  "\<exists>t w'. uploadFile (Session ''s1'') fileUri options (fresh appPath) = (Returned t, w')
     \<and> t_id t = ''s1{1}'' \<and> t_status t = ''pending''
     \<and> t_upload t = JInt 0 \<and> t_totalUpload t = JInt 1
     \<and> fromId ''s1{1}'' w' = Some t"
  by (simp add: create_ops Let_def fresh_def task_ops fromId_def string_of_nat_1)

section \<open>Cancelling\<close>

text \<open>
  C9. \<open>cancel\<close> leaves the cache as it is, so the status, the other fields and the
  event log of every task, this one included, are unchanged and no event is emitted; the
  counter is unchanged; the one thing it does is ask the engine to stop the upload with
  this task's id.
\<close>

theorem cancel_only_stops_upload:
  "cache (cancel t w) = cache w
   \<and> fromId i (cancel t w) = fromId i w
   \<and> taskCount (cancel t w) = taskCount w
   \<and> trace (cancel t w) = trace w @ [StopUpload (t_id t)]"
  by (simp add: cancel_def fromId_def)

section \<open>The default method\<close>

text \<open>
  C10. When the method of the options is undefined or the empty string, the request
  that a single-file upload starts has the method \<open>GET\<close>, and so has the request that a
  multipart upload starts whenever it starts one.
\<close>

theorem method_defaults_to_GET:
  assumes "\<not> truthy_str (o_method options)"
  shows "(\<exists>r. submitted (trace (snd (create s file options w))) = submitted (trace w) @ [r]
             \<and> r_method r = Some ''GET'')
       \<and> (\<forall>t. fst (createMultiPart s params options w) = Returned t \<longrightarrow>
             (\<exists>r. submitted (trace (snd (createMultiPart s params options w)))
                     = submitted (trace w) @ [r]
                 \<and> r_method r = Some ''GET''))"
  using assms
  by (auto simp add: create_def createMultiPart_def Let_def startUpload_def cacheInsert_def
      ensure_ops submitted_append getBinaryRequest_def getMultipartRequest_def
      setRequestOptions_method split: sum.splits)

text \<open>
  Witness for C10: options without a method, for a single-file upload and for a
  multipart upload of one plain field.
\<close>

theorem method_defaults_to_GET_witness:
  "\<not> truthy_str (o_method default_method_options)
   \<and> (\<exists>r. submitted (trace (snd (create (Session ''s1'') ''/tmp/a.bin'' default_method_options
                                     (fresh ''/app''))))
             = submitted (trace (fresh ''/app'')) @ [r]
         \<and> r_method r = Some ''GET'')
   \<and> fst (createMultiPart (Session ''s1'') [example_field] default_method_options
             (fresh ''/app'')) = Returned pending_task
   \<and> (\<exists>r. submitted (trace (snd (createMultiPart (Session ''s1'') [example_field]
                                     default_method_options (fresh ''/app''))))
             = submitted (trace (fresh ''/app'')) @ [r]
         \<and> r_method r = Some ''GET'')"
proof -
  have h: "\<not> truthy_str (o_method default_method_options)"
    by (simp add: default_method_options_def)
  from method_defaults_to_GET [OF h, of "Session ''s1''" "''/tmp/a.bin''" "fresh ''/app''"
      "[example_field]"]
  show ?thesis using h multipart_default_method_returns by blast
qed

end
